theory Spec2Isabelle
  imports Complex_Main "HOL-Library.AList" "HOL-Library.Multiset"
begin

section \<open>Data model\<close>

text \<open>
  The searcher reads a pickled dictionary with the keys \<open>vocab\<close>, \<open>docs\<close>,
  \<open>inverted_index\<close>, \<open>language_models\<close> and \<open>collection_model\<close>. Opening and
  unpickling the file is outside the model: the search functions take the loaded
  dictionary. Python floats are modelled as real numbers, Python integers as \<open>int\<close>.
\<close>

datatype error = KeyError | DomainError

text \<open>
  \<open>TokenizedDocument(id, title, content)\<close>, as \<open>tester.py\<close> builds it. The stored
  documents carry token ids; \<open>bm25_search\<close> turns them into strings with
  \<open>convert_itos\<close>. The field \<open>id\<close> is named \<open>doc_id\<close> here.
\<close>

record 't tokenized_document =
  doc_id :: int
  title :: "'t list"
  content :: "'t list"

text \<open>
  \<open>LanguageModel(id, counter, total, count)\<close>, as \<open>tester.py\<close> builds it: the id
  (\<open>None\<close> for the collection model), a \<open>Counter\<close> of tokens (a missing token counts 0),
  the total-token count, and a fourth field that the specification calls the member count.
  In the fixtures of \<open>tester.py\<close> the fourth field is the smoothing count of the model:
  \<open>create_language_models\<close> receives it as an argument, the total is the number of
  tokens plus that count for every word of the vocabulary, and it is added to the count of a
  word in every probability the tests expect.
\<close>

record language_model =
  lm_id :: "int option"
  lm_counter :: "string \<Rightarrow> nat"
  lm_total :: nat
  lm_members :: nat

text \<open>
  The inverted index is the dictionary that \<open>test_create_inverted_index\<close> expects:
  token to list of document ids.
\<close>

record 'v processed_data =
  vocab :: 'v
  docs :: "int tokenized_document list"
  inverted_index :: "string \<rightharpoonup> int list"
  language_models :: "language_model list"
  collection_model :: language_model

text \<open>
  The helpers of \<open>util.py\<close> that the searcher imports are not part of the sources at
  hand. They are parameters of the search functions.
\<close>

record 'v util =
  clean_words :: "string \<Rightarrow> string list"
  replace_unknown_words :: "string list \<Rightarrow> 'v \<Rightarrow> string list"
  convert_itos :: "int list \<Rightarrow> 'v \<Rightarrow> string list"

section \<open>Python primitives\<close>

text \<open>\<open>xs[:topk]\<close>: everything for \<open>None\<close>, a prefix for \<open>topk \<ge> 0\<close>, and for a
  negative \<open>topk\<close> the list without its last \<open>-topk\<close> entries.\<close>

definition slice_to :: "int option \<Rightarrow> 'a list \<Rightarrow> 'a list" where
  "slice_to topk xs =
     (case topk of
        None \<Rightarrow> xs
      | Some k \<Rightarrow> if 0 \<le> k then take (nat k) xs
                  else take (nat (int (length xs) + k)) xs)"

text \<open>\<open>sorted(xs, key=key, reverse=True)\<close>: CPython reverses the list, sorts it
  stably in ascending order and reverses the result.\<close>

definition sorted_reverse :: "('a \<Rightarrow> real) \<Rightarrow> 'a list \<Rightarrow> 'a list" where
  "sorted_reverse key xs = rev (sort_key key (rev xs))"

text \<open>A dictionary built by successive assignments \<open>d[k] = v\<close>: a key keeps the
  position of its first assignment and the value of its last one.\<close>

definition dict_of :: "('k \<times> 'v) list \<Rightarrow> ('k \<times> 'v) list" where
  "dict_of kvs = foldl (\<lambda>d kv. AList.update (fst kv) (snd kv) d) [] kvs"

text \<open>The order in which CPython iterates over \<open>set(ids)\<close> depends on the hash table
  and is a parameter of the model; \<open>set_order\<close> says what every such order satisfies.\<close>

definition set_order :: "(int list \<Rightarrow> int list) \<Rightarrow> bool" where
  "set_order iter \<longleftrightarrow> (\<forall>xs. distinct (iter xs) \<and> set (iter xs) = set xs)"

section \<open>The BM25 ranker\<close>

text \<open>
  Modelled from the spec: \<open>calculate_bm25\<close> of \<open>ranker.py\<close> and the quantities it
  is built from; \<open>ranker.py\<close> is not among the sources. Section 4.3 of the specification:
  the term frequency counts a token in the title and body of a document, the document
  frequency counts the candidates that contain the token, \<open>idf = ln (N / df)\<close> with 0 for
  \<open>df = 0\<close>, the average document length is the mean over the candidates, the score is
  summed over the query terms present in the document, and the result is sorted by
  descending score with a stable tie-break.
\<close>

definition doc_tokens :: "'t tokenized_document \<Rightarrow> 't list" where
  "doc_tokens d = title d @ content d"

definition bm25_tf :: "string tokenized_document \<Rightarrow> string \<Rightarrow> nat" where
  "bm25_tf d t = count_list (doc_tokens d) t"

definition bm25_df :: "string tokenized_document list \<Rightarrow> string \<Rightarrow> nat" where
  "bm25_df ds t = length (filter (\<lambda>d. t \<in> set (doc_tokens d)) ds)"

definition bm25_idf :: "string tokenized_document list \<Rightarrow> string \<Rightarrow> real" where
  "bm25_idf ds t =
     (if bm25_df ds t = 0 then 0 else ln (real (length ds) / real (bm25_df ds t)))"

definition bm25_avgdl :: "string tokenized_document list \<Rightarrow> real" where
  "bm25_avgdl ds = (\<Sum>d\<leftarrow>ds. real (length (doc_tokens d))) / real (length ds)"

definition bm25_score ::
  "string list \<Rightarrow> string tokenized_document list \<Rightarrow> real \<Rightarrow> real \<Rightarrow>
   string tokenized_document \<Rightarrow> real" where
  "bm25_score query ds k1 b d =
     (\<Sum>t\<leftarrow>filter (\<lambda>t. t \<in> set (doc_tokens d)) query.
        bm25_idf ds t * (real (bm25_tf d t) * (k1 + 1)) /
        (real (bm25_tf d t) +
         k1 * (1 - b + b * real (length (doc_tokens d)) / bm25_avgdl ds)))"

definition calculate_bm25 ::
  "string list \<Rightarrow> string tokenized_document list \<Rightarrow> real \<Rightarrow> real \<Rightarrow> (int \<times> real) list" where
  "calculate_bm25 query ds k1 b =
     sorted_reverse snd (map (\<lambda>d. (doc_id d, bm25_score query ds k1 b d)) ds)"

section \<open>The query-likelihood ranker\<close>

text \<open>
  Modelled from the spec: \<open>calculate_word_probability\<close> of \<open>ranker.py\<close>, which is not
  among the sources. Section 4.4: the count of the word over the total-token count, and its
  natural logarithm under \<open>normalize\<close>; the logarithm of a probability that is not
  positive is a domain error (section 7). The count is the smoothed one that
  \<open>test_calculate_word_probability\<close> pins (lines 101 to 107 of \<open>tester.py\<close>): the
  fourth field of the model is added to the count of the word, so that a word the model never
  counted has probability \<open>1 / 15\<close> in a model of total 15 and fourth field 1.
\<close>

definition calculate_word_probability ::
  "language_model \<Rightarrow> string \<Rightarrow> bool \<Rightarrow> error + real" where
  "calculate_word_probability m w normalise =
     (let p = (real (lm_counter m w) + real (lm_members m)) / real (lm_total m)
      in if normalise then (if p \<le> 0 then Inl DomainError else Inr (ln p)) else Inr p)"

text \<open>
  Modelled from the spec: \<open>calculate_sentence_probability\<close> of \<open>ranker.py\<close>, which is
  not among the sources. Section 4.4: the product of the per-token probabilities, or the sum
  of their logarithms under \<open>normalize\<close>.
\<close>

fun calculate_sentence_probability ::
  "language_model \<Rightarrow> string list \<Rightarrow> bool \<Rightarrow> error + real" where
  "calculate_sentence_probability m [] normalise = Inr (if normalise then 0 else 1)"
| "calculate_sentence_probability m (t # ts) normalise =
     (case calculate_word_probability m t normalise of
        Inl e \<Rightarrow> Inl e
      | Inr p \<Rightarrow>
          (case calculate_sentence_probability m ts normalise of
             Inl e \<Rightarrow> Inl e
           | Inr r \<Rightarrow> Inr (if normalise then p + r else p * r)))"

text \<open>
  Modelled from the spec: the Jelinek-Mercer interpolation of one token, section 4.4:
  \<open>alpha * P(t | document) + (1 - alpha) * P(t | collection)\<close>, each probability
  smoothed as in \<open>calculate_word_probability\<close>
  (\<open>test_calculate_interpolated_sentence_probability\<close>, lines 117 to 125 of
  \<open>tester.py\<close>).
\<close>

definition interpolated_word_probability ::
  "language_model \<Rightarrow> language_model \<Rightarrow> string \<Rightarrow> real \<Rightarrow> real" where
  "interpolated_word_probability dm cm t alpha =
     alpha * ((real (lm_counter dm t) + real (lm_members dm)) / real (lm_total dm)) +
     (1 - alpha) * ((real (lm_counter cm t) + real (lm_members cm)) / real (lm_total cm))"

text \<open>
  Modelled from the spec: \<open>calculate_interpolated_sentence_probability\<close> of
  \<open>ranker.py\<close>, which is not among the sources. Section 4.4: each token's probability is
  \<open>alpha * P(t | document) + (1 - alpha) * P(t | collection)\<close>; the tokens are combined
  as a product, or as a sum of logarithms under \<open>normalize\<close>, where the logarithm of a
  probability that is not positive is a domain error.
\<close>

fun calculate_interpolated_sentence_probability ::
  "language_model \<Rightarrow> language_model \<Rightarrow> string list \<Rightarrow> real \<Rightarrow> bool \<Rightarrow> error + real" where
  "calculate_interpolated_sentence_probability dm cm [] alpha normalise =
     Inr (if normalise then 0 else 1)"
| "calculate_interpolated_sentence_probability dm cm (t # ts) alpha normalise =
     (let p = interpolated_word_probability dm cm t alpha
      in if normalise \<and> p \<le> 0 then Inl DomainError
         else (case calculate_interpolated_sentence_probability dm cm ts alpha normalise of
                 Inl e \<Rightarrow> Inl e
               | Inr r \<Rightarrow> Inr (if normalise then ln p + r else p * r)))"

section \<open>searcher.py\<close>

subsection \<open>bm25\_search\<close>

text \<open>Lines 32 to 36: the documents by id, their tokens converted to strings.\<close>

definition convert_doc :: "'v util \<Rightarrow> 'v \<Rightarrow> int tokenized_document \<Rightarrow> string tokenized_document" where
  "convert_doc u v d =
     \<lparr>doc_id = doc_id d, title = convert_itos u (title d) v,
      content = convert_itos u (content d) v\<rparr>"

definition docs_map ::
  "'v util \<Rightarrow> 'v processed_data \<Rightarrow> (int \<rightharpoonup> string tokenized_document)" where
  "docs_map u data =
     foldl (\<lambda>m d. m(doc_id d \<mapsto> convert_doc u (vocab data) d)) Map.empty (docs data)"

text \<open>Line 43, the generator: \<open>inverted_index[word]\<close> for each word of the query in
  turn; a word that is not a key raises \<open>KeyError\<close>.\<close>

fun postings :: "(string \<rightharpoonup> int list) \<Rightarrow> string list \<Rightarrow> error + int list" where
  "postings idx [] = Inr []"
| "postings idx (w # ws) =
     (case idx w of
        None \<Rightarrow> Inl KeyError
      | Some ps \<Rightarrow>
          (case postings idx ws of Inl e \<Rightarrow> Inl e | Inr r \<Rightarrow> Inr (ps @ r)))"

text \<open>Line 46: \<open>docs_map[doc_id]\<close> for each id of the set.\<close>

fun lookup_docs :: "(int \<rightharpoonup> 'd) \<Rightarrow> int list \<Rightarrow> error + 'd list" where
  "lookup_docs m [] = Inr []"
| "lookup_docs m (i # is) =
     (case m i of
        None \<Rightarrow> Inl KeyError
      | Some d \<Rightarrow>
          (case lookup_docs m is of Inl e \<Rightarrow> Inl e | Inr r \<Rightarrow> Inr (d # r)))"

text \<open>Lines 42 to 46: the candidate documents of a tokenised query.\<close>

definition bm25_hits ::
  "(int list \<Rightarrow> int list) \<Rightarrow> 'v util \<Rightarrow> 'v processed_data \<Rightarrow> string list \<Rightarrow>
   error + string tokenized_document list" where
  "bm25_hits iter u data query =
     (case postings (inverted_index data) query of
        Inl e \<Rightarrow> Inl e
      | Inr ids \<Rightarrow> lookup_docs (docs_map u data) (iter ids))"

definition bm25_search ::
  "(int list \<Rightarrow> int list) \<Rightarrow> 'v util \<Rightarrow> 'v processed_data \<Rightarrow> string \<Rightarrow> int option \<Rightarrow>
   error + (int \<times> real) list" where
  "bm25_search iter u data query topk =
     (let query = replace_unknown_words u (clean_words u query) (vocab data)
      in case bm25_hits iter u data query of
           Inl e \<Rightarrow> Inl e
         | Inr hits \<Rightarrow>
             if hits = [] then Inr []
             else Inr (slice_to topk (calculate_bm25 query hits (12 / 10) (3 / 4))))"

subsection \<open>qlm\_search\<close>

text \<open>The scoring function \<open>calculate_interpolated_sentence_probability\<close> is imported
  from \<open>ranker.py\<close>; \<open>qlm_search\<close> takes it as the parameter \<open>score\<close>.\<close>

type_synonym scorer =
  "language_model \<Rightarrow> language_model \<Rightarrow> string list \<Rightarrow> real \<Rightarrow> bool \<Rightarrow> error + real"

text \<open>Line 76.\<close>

definition models_map :: "'v processed_data \<Rightarrow> (int option \<times> language_model) list" where
  "models_map data = dict_of (map (\<lambda>m. (lm_id m, m)) (language_models data))"

text \<open>Lines 83 to 86: the loop over \<open>models_map.items()\<close>, with the dictionary
  \<open>scores\<close> as accumulator. The first failing call ends the loop.\<close>

fun score_loop ::
  "(language_model \<Rightarrow> error + real) \<Rightarrow> (int option \<times> language_model) list \<Rightarrow>
   (int option \<times> real) list \<Rightarrow> error + (int option \<times> real) list" where
  "score_loop f [] scores = Inr scores"
| "score_loop f ((i, m) # rest) scores =
     (case f m of
        Inl e \<Rightarrow> Inl e
      | Inr s \<Rightarrow> score_loop f rest (AList.update i s scores))"

definition qlm_scores ::
  "scorer \<Rightarrow> 'v util \<Rightarrow> 'v processed_data \<Rightarrow> string \<Rightarrow> real \<Rightarrow> bool \<Rightarrow>
   error + (int option \<times> real) list" where
  "qlm_scores score u data query alpha normalise =
     (let query = replace_unknown_words u (clean_words u query) (vocab data)
      in score_loop (\<lambda>m. score m (collection_model data) query alpha normalise)
           (models_map data) [])"

definition qlm_search ::
  "scorer \<Rightarrow> 'v util \<Rightarrow> 'v processed_data \<Rightarrow> string \<Rightarrow> int option \<Rightarrow> real \<Rightarrow> bool \<Rightarrow>
   error + (int option \<times> real) list" where
  "qlm_search score u data query topk alpha normalise =
     (case qlm_scores score u data query alpha normalise of
        Inl e \<Rightarrow> Inl e
      | Inr scores \<Rightarrow> Inr (slice_to topk (sorted_reverse snd scores)))"


section \<open>A small collection\<close>

text \<open>
  An instance of the helpers of \<open>util.py\<close> and a collection of three documents, on which
  the search functions are evaluated below: the words of a query are separated by blanks,
  a word outside the vocabulary becomes \<open><unk>\<close>, and a token id is a position in the
  vocabulary. The documents are those of \<open>test_calculate_bm25\<close>; the index has the tokens
  of the documents as keys.
\<close>

fun split_words :: "string \<Rightarrow> string \<Rightarrow> string list" where
  "split_words acc [] = (if acc = [] then [] else [acc])"
| "split_words acc (c # cs) =
     (if c = CHR '' '' then (if acc = [] then [] else [acc]) @ split_words [] cs
      else split_words (acc @ [c]) cs)"

definition example_util :: "string list util" where
  "example_util =
     \<lparr>clean_words = split_words [],
      replace_unknown_words = (\<lambda>ws v. map (\<lambda>w. if w \<in> set v then w else ''<unk>'') ws),
      convert_itos = (\<lambda>ts v. map (\<lambda>i. v ! nat i) ts)\<rparr>"

definition example_models :: "language_model list" where
  "example_models =
     [\<lparr>lm_id = Some 0, lm_counter = (\<lambda>w. 0)(''a'' := 1, ''b'' := 1, ''c'' := 1),
       lm_total = 9, lm_members = 1\<rparr>,
      \<lparr>lm_id = Some 1, lm_counter = (\<lambda>w. 0)(''b'' := 1, ''c'' := 1, ''d'' := 1),
       lm_total = 9, lm_members = 1\<rparr>,
      \<lparr>lm_id = Some 2, lm_counter = (\<lambda>w. 0)(''c'' := 1, ''d'' := 1, ''e'' := 1),
       lm_total = 9, lm_members = 1\<rparr>]"

definition example_collection :: language_model where
  "example_collection =
     \<lparr>lm_id = None,
      lm_counter = (\<lambda>w. 0)(''a'' := 1, ''b'' := 2, ''c'' := 3, ''d'' := 2, ''e'' := 1),
      lm_total = 27, lm_members = 3\<rparr>"

definition example_data :: "string list processed_data" where
  "example_data =
     \<lparr>vocab = [''<unk>'', ''a'', ''b'', ''c'', ''d'', ''e''],
      docs = [\<lparr>doc_id = 0, title = [1], content = [2, 3]\<rparr>,
              \<lparr>doc_id = 1, title = [2], content = [3, 4]\<rparr>,
              \<lparr>doc_id = 2, title = [3], content = [4, 5]\<rparr>],
      inverted_index = [''a'' \<mapsto> [0], ''b'' \<mapsto> [0, 1], ''c'' \<mapsto> [0, 1, 2],
                        ''d'' \<mapsto> [1, 2], ''e'' \<mapsto> [2]],
      language_models = example_models,
      collection_model = example_collection\<rparr>"

text \<open>
  The two language models of \<open>test_calculate_interpolated_sentence_probability\<close>:
  \<open>LanguageModel(0, Counter('abbcccdddd'), 15, 1)\<close> and
  \<open>LanguageModel(None, Counter('abbcccccddddeee'), 25, 2)\<close>.
\<close>

definition fixture_model :: language_model where
  "fixture_model =
     \<lparr>lm_id = Some 0,
      lm_counter = (\<lambda>w. 0)(''a'' := 1, ''b'' := 2, ''c'' := 3, ''d'' := 4),
      lm_total = 15, lm_members = 1\<rparr>"

definition fixture_collection :: language_model where
  "fixture_collection =
     \<lparr>lm_id = None,
      lm_counter = (\<lambda>w. 0)(''a'' := 1, ''b'' := 2, ''c'' := 5, ''d'' := 4, ''e'' := 3),
      lm_total = 25, lm_members = 2\<rparr>"

section \<open>Properties of the primitives\<close>

lemma sorted_reverse_sorted:
  "sorted_wrt (\<lambda>x y. key y \<le> key x) (sorted_reverse key xs)"
proof -
  have "sorted (map key (sort_key key (rev xs)))" by simp
  then have "sorted_wrt (\<lambda>x y. key x \<le> key y) (sort_key key (rev xs))"
    by (simp add: sorted_map)
  then show ?thesis
    by (simp add: sorted_reverse_def sorted_wrt_rev)
qed


lemma mset_sorted_reverse: "mset (sorted_reverse key xs) = mset xs"
  by (simp add: sorted_reverse_def)

lemma set_sorted_reverse: "set (sorted_reverse key xs) = set xs"
  by (simp add: sorted_reverse_def)

lemma length_sorted_reverse: "length (sorted_reverse key xs) = length xs"
  by (simp add: sorted_reverse_def)

lemma distinct_keys_sorted_reverse:
  "distinct (map fst (sorted_reverse key xs)) = distinct (map fst xs)"
proof -
  have "mset (map fst (sorted_reverse key xs)) = mset (map fst xs)"
    by (simp add: mset_sorted_reverse)
  then show ?thesis by (rule mset_eq_imp_distinct_iff)
qed

lemma update_fresh: "k \<notin> fst ` set al \<Longrightarrow> AList.update k v al = al @ [(k, v)]"
  by (induction al) auto


lemma distinct_dict_fold:
  "distinct (map fst acc) \<Longrightarrow>
   distinct (map fst (foldl (\<lambda>d kv. AList.update (fst kv) (snd kv) d) acc kvs))"
  by (induction kvs arbitrary: acc) (simp_all add: AList.distinct_update)

lemma keys_dict_fold:
  "fst ` set (foldl (\<lambda>d kv. AList.update (fst kv) (snd kv) d) acc kvs)
     = fst ` set acc \<union> fst ` set kvs"
  by (induction kvs arbitrary: acc) (auto simp: AList.dom_update)

lemma distinct_dict_of: "distinct (map fst (dict_of kvs))"
  by (simp add: dict_of_def distinct_dict_fold)

lemma keys_dict_of: "fst ` set (dict_of kvs) = fst ` set kvs"
  by (simp add: dict_of_def keys_dict_fold)

lemma score_loop_keys:
  "score_loop f items acc = Inr r \<Longrightarrow> distinct (map fst acc @ map fst items) \<Longrightarrow>
   map fst r = map fst acc @ map fst items"
proof (induction f items acc rule: score_loop.induct)
  case (1 f scores)
  then show ?case by simp
next
  case (2 f i m rest scores)
  then show ?case
    by (auto split: sum.splits simp: update_fresh)
qed

lemma slice_to_None: "slice_to None xs = xs"
  by (simp add: slice_to_def)

lemma slice_to_nonneg: "0 \<le> k \<Longrightarrow> slice_to (Some k) xs = take (nat k) xs"
  by (simp add: slice_to_def)

lemma slice_to_take: "\<exists>n. slice_to topk xs = take n xs"
proof (cases topk)
  case None
  then have "slice_to topk xs = take (length xs) xs" by (simp add: slice_to_def)
  then show ?thesis ..
next
  case (Some k)
  then show ?thesis by (auto simp: slice_to_def)
qed

lemma distinct_keys_slice_to:
  "distinct (map fst xs) \<Longrightarrow> distinct (map fst (slice_to topk xs))"
proof -
  assume d: "distinct (map fst xs)"
  obtain n where "slice_to topk xs = take n xs" using slice_to_take by blast
  then show ?thesis using d by (simp add: take_map [symmetric])
qed

lemma slice_to_neg:
  "k < 0 \<Longrightarrow> slice_to (Some k) xs = take (length xs - nat (- k)) xs"
proof -
  assume "k < 0"
  then have "nat (int (length xs) + k) = length xs - nat (- k)" by linarith
  with \<open>k < 0\<close> show ?thesis by (simp add: slice_to_def)
qed

lemma postings_set:
  "postings idx q = Inr ids \<Longrightarrow>
   set ids = {i. \<exists>w\<in>set q. \<exists>ps. idx w = Some ps \<and> i \<in> set ps}"
proof (induction q arbitrary: ids)
  case Nil
  then show ?case by simp
next
  case (Cons w ws)
  then show ?case by (auto split: option.splits sum.splits)
qed

lemma postings_missing:
  "w \<in> set q \<Longrightarrow> idx w = None \<Longrightarrow> postings idx q = Inl KeyError"
proof (induction q)
  case Nil
  then show ?case by simp
next
  case (Cons a q)
  then show ?case by (cases "postings idx q"; cases "a = w"; auto split: option.splits sum.splits error.splits)
qed

lemma postings_empty:
  "\<forall>w\<in>set q. idx w = Some [] \<Longrightarrow> postings idx q = Inr []"
  by (induction q) auto

lemma postings_skip:
  "idx w = Some [] \<Longrightarrow> postings idx (ws @ w # ws') = postings idx (ws @ ws')"
  by (induction ws) (auto split: option.splits sum.splits)

lemma lookup_docs_rel:
  "lookup_docs m ids = Inr ds \<Longrightarrow> list_all2 (\<lambda>i d. m i = Some d) ids ds"
proof (induction ids arbitrary: ds)
  case Nil
  then show ?case by simp
next
  case (Cons i ids)
  then show ?case by (auto split: option.splits sum.splits)
qed

lemma docs_fold_id:
  "(\<And>i d. m i = Some d \<Longrightarrow> doc_id d = i) \<Longrightarrow>
   foldl (\<lambda>m d. m(doc_id d \<mapsto> convert_doc u v d)) m ds i = Some d \<Longrightarrow> doc_id d = i"
proof (induction ds arbitrary: m)
  case Nil
  then show ?case by simp
next
  case (Cons a ds)
  show ?case
  proof (rule Cons.IH [of "m(doc_id a \<mapsto> convert_doc u v a)"])
    fix j e
    assume "(m(doc_id a \<mapsto> convert_doc u v a)) j = Some e"
    then show "doc_id e = j"
      using Cons.prems(1) by (auto simp: convert_doc_def split: if_splits)
  next
    show "foldl (\<lambda>m d. m(doc_id d \<mapsto> convert_doc u v d)) (m(doc_id a \<mapsto> convert_doc u v a)) ds i = Some d"
      using Cons.prems(2) by (simp only: foldl_Cons)
  qed
qed

lemma docs_map_id: "docs_map u data i = Some d \<Longrightarrow> doc_id d = i"
  unfolding docs_map_def by (rule docs_fold_id [of Map.empty]) simp_all

lemma bm25_hits_ids:
  assumes "bm25_hits iter u data q = Inr hits"
  shows "\<exists>ids. postings (inverted_index data) q = Inr ids \<and> map doc_id hits = iter ids"
proof -
  from assms obtain ids where p: "postings (inverted_index data) q = Inr ids"
    and l: "lookup_docs (docs_map u data) (iter ids) = Inr hits"
    by (auto simp: bm25_hits_def split: sum.splits)
  from lookup_docs_rel [OF l]
  have "list_all2 (\<lambda>i d. doc_id d = i) (iter ids) hits"
    by (rule list_all2_mono) (simp add: docs_map_id)
  then have "map doc_id hits = iter ids"
    by (induction rule: list_all2_induct) simp_all
  with p show ?thesis by blast
qed

lemma keys_calculate_bm25:
  "mset (map fst (calculate_bm25 q hits k1 b)) = mset (map doc_id hits)"
proof -
  have "map fst (map (\<lambda>d. (doc_id d, bm25_score q hits k1 b d)) hits) = map doc_id hits"
    by (induction hits) simp_all
  then have "mset (map fst (map (\<lambda>d. (doc_id d, bm25_score q hits k1 b d)) hits)) = mset (map doc_id hits)"
    by (rule arg_cong)
  moreover have "mset (map fst (calculate_bm25 q hits k1 b))
    = mset (map fst (map (\<lambda>d. (doc_id d, bm25_score q hits k1 b d)) hits))"
    unfolding calculate_bm25_def mset_map mset_sorted_reverse ..
  ultimately show ?thesis by simp
qed

lemma length_calculate_bm25: "length (calculate_bm25 q hits k1 b) = length hits"
  by (simp add: calculate_bm25_def length_sorted_reverse)

lemma score_loop_rel:
  "score_loop f items acc = Inr r \<Longrightarrow> distinct (map fst acc @ map fst items) \<Longrightarrow>
   \<exists>new. r = acc @ new \<and> list_all2 (\<lambda>im js. fst im = fst js \<and> f (snd im) = Inr (snd js)) items new"
proof (induction f items acc rule: score_loop.induct)
  case (1 f scores)
  then show ?case by simp
next
  case (2 f i m rest scores)
  from "2.prems"(1) obtain s where s: "f m = Inr s"
    and r: "score_loop f rest (AList.update i s scores) = Inr r"
    by (auto split: sum.splits)
  from "2.prems"(2) have fresh: "AList.update i s scores = scores @ [(i, s)]"
    by (simp add: update_fresh)
  from "2.prems"(2) have "distinct (map fst (AList.update i s scores) @ map fst rest)"
    by (auto simp: fresh)
  from "2.IH" [OF s r this] obtain new where
    "r = AList.update i s scores @ new"
    "list_all2 (\<lambda>im js. fst im = fst js \<and> f (snd im) = Inr (snd js)) rest new"
    by blast
  then have "r = scores @ ((i, s) # new) \<and>
    list_all2 (\<lambda>im js. fst im = fst js \<and> f (snd im) = Inr (snd js)) ((i, m) # rest) ((i, s) # new)"
    using s by (simp add: fresh)
  then show ?case by blast
qed

lemma score_loop_total:
  "\<forall>m\<in>snd ` set items. \<exists>s. f m = Inr s \<Longrightarrow> \<exists>r. score_loop f items acc = Inr r"
proof (induction f items acc rule: score_loop.induct)
  case (1 f scores)
  then show ?case by simp
next
  case (2 f i m rest scores)
  then obtain s where s: "f m = Inr s" by force
  with 2 show ?case by auto
qed

lemma values_dict_fold:
  "snd ` set (foldl (\<lambda>d kv. AList.update (fst kv) (snd kv) d) acc kvs)
     \<subseteq> snd ` set acc \<union> snd ` set kvs"
proof (induction kvs arbitrary: acc)
  case Nil
  then show ?case by simp
next
  case (Cons kv kvs)
  have "set (AList.update (fst kv) (snd kv) acc) \<subseteq> insert kv (set acc)"
    by (induction acc) auto
  then have "snd ` set (AList.update (fst kv) (snd kv) acc) \<subseteq> insert (snd kv) (snd ` set acc)"
    by force
  with Cons.IH [of "AList.update (fst kv) (snd kv) acc"] show ?case by auto
qed

lemma values_models_map: "snd ` set (models_map data) \<subseteq> set (language_models data)"
  using values_dict_fold [of "[]" "map (\<lambda>m. (lm_id m, m)) (language_models data)"]
  by (auto simp: models_map_def dict_of_def image_image)

lemma keys_models_map: "fst ` set (models_map data) = lm_id ` set (language_models data)"
  by (simp add: models_map_def keys_dict_of image_image)

lemma distinct_models_map: "distinct (map fst (models_map data))"
  by (simp add: models_map_def distinct_dict_of)

section \<open>Properties of the rankers\<close>

text \<open>The three fixtures of \<open>tester.py\<close> for the language models (lines 101 to 125):
  the tests expect \<open>0.0666...\<close>, \<open>0.00444...\<close> and \<open>0.00589\<close>.\<close>

lemma word_probability_fixture:
  "calculate_word_probability fixture_model ''e'' False = Inr (1 / 15)"
  by (simp add: calculate_word_probability_def fixture_model_def)

lemma sentence_probability_fixture:
  "calculate_sentence_probability fixture_model [''b'', ''d'', ''e''] False = Inr (1 / 225)"
  by (simp add: calculate_word_probability_def fixture_model_def)

lemma interpolated_probability_fixture:
  "calculate_interpolated_sentence_probability fixture_model fixture_collection
     [''b'', ''d'', ''e''] (3 / 4) False = Inr (589 / 100000)"
  by (simp add: interpolated_word_probability_def fixture_model_def fixture_collection_def
      Let_def)

lemma interpolated_product:
  "calculate_interpolated_sentence_probability dm cm ts alpha False
     = Inr (\<Prod>t\<leftarrow>ts. interpolated_word_probability dm cm t alpha)"
  by (induction ts) (simp_all add: Let_def)



lemma example_scores:
  "qlm_scores calculate_interpolated_sentence_probability example_util example_data ''b''
     (3 / 4) False
   = Inr [(Some 0, 23 / 108), (Some 1, 23 / 108), (Some 2, 7 / 54)]"
  by (simp add: qlm_scores_def models_map_def dict_of_def example_data_def example_models_def
      example_collection_def example_util_def interpolated_word_probability_def Let_def)

section \<open>The logarithms of the fixture\<close>

text \<open>
  The partial sums of the exponential series bound \<open>exp\<close> from below, and with the
  remainder of Maclaurin's formula from above; evaluated in Horner form at rationals of
  sixteen decimals they enclose \<open>ln 3\<close> and \<open>ln (3 / 2)\<close>.
\<close>

lemma exp_lower_sum:
  fixes x :: real
  assumes "0 \<le> x"
  shows "(\<Sum>m<n. x ^ m / fact m) \<le> exp x"
proof -
  obtain t where "exp x = (\<Sum>m<n. x ^ m / fact m) + exp t / fact n * x ^ n"
    using Maclaurin_exp_le [of x n] by blast
  moreover have "0 \<le> exp t / fact n * x ^ n" using assms by simp
  ultimately show ?thesis by linarith
qed

lemma exp_upper_sum:
  fixes x :: real
  assumes "0 \<le> x" and "x ^ n / fact n < 1"
  shows "exp x \<le> (\<Sum>m<n. x ^ m / fact m) / (1 - x ^ n / fact n)"
proof -
  obtain t where t: "\<bar>t\<bar> \<le> \<bar>x\<bar>"
    and e: "exp x = (\<Sum>m<n. x ^ m / fact m) + exp t / fact n * x ^ n"
    using Maclaurin_exp_le [of x n] by blast
  have "exp t \<le> exp x" using t assms(1) by simp
  then have "exp t / fact n * x ^ n \<le> exp x / fact n * x ^ n"
    using assms(1) by (intro mult_right_mono divide_right_mono) simp_all
  with e have "exp x \<le> (\<Sum>m<n. x ^ m / fact m) + exp x * (x ^ n / fact n)"
    by simp
  then have "exp x * (1 - x ^ n / fact n) \<le> (\<Sum>m<n. x ^ m / fact m)"
    by (simp add: algebra_simps)
  then show ?thesis using assms(2) by (simp add: pos_le_divide_eq)
qed

lemma exp_sum_19:
  fixes x :: real
  shows "(\<Sum>m<19. x ^ m / fact m)
     = (1 + x / 1 * (1 + x / 2 * (1 + x / 3 * (1 + x / 4 * (1 + x / 5 * (1 + x / 6 * (1 + x / 7
       * (1 + x / 8 * (1 + x / 9 * (1 + x / 10 * (1 + x / 11 * (1 + x / 12 * (1 + x / 13
       * (1 + x / 14 * (1 + x / 15 * (1 + x / 16 * (1 + x / 17 * (1 + x /
       18))))))))))))))))))"
  by (simp add: lessThan_Suc eval_nat_numeral fact_numeral algebra_simps)

lemma exp_sum_15:
  fixes x :: real
  shows "(\<Sum>m<15. x ^ m / fact m)
     = (1 + x / 1 * (1 + x / 2 * (1 + x / 3 * (1 + x / 4 * (1 + x / 5 * (1 + x / 6 * (1 + x / 7
       * (1 + x / 8 * (1 + x / 9 * (1 + x / 10 * (1 + x / 11 * (1 + x / 12 * (1 + x / 13
       * (1 + x / 14))))))))))))))"
  by (simp add: lessThan_Suc eval_nat_numeral fact_numeral algebra_simps)

lemma ln_3_upper: "ln (3::real) < 1.0986122886681108"
proof -
  have "(3::real) < (\<Sum>m<19. (1.0986122886681108::real) ^ m / fact m)"
    unfolding exp_sum_19 by simp
  also have "\<dots> \<le> exp 1.0986122886681108" by (rule exp_lower_sum) simp
  finally have "exp (ln (3)) < exp (1.0986122886681108::real)" by simp
  then show ?thesis by (simp only: exp_less_cancel_iff)
qed

lemma ln_3_lower: "1.0986122886681088 < ln (3::real)"
proof -
  have r: "(1.0986122886681088::real) ^ 19 / fact 19 < 1"
    by (simp add: fact_numeral power_divide)
  have "exp (1.0986122886681088::real)
      \<le> (\<Sum>m<19. (1.0986122886681088::real) ^ m / fact m) / (1 - 1.0986122886681088 ^ 19 / fact 19)"
    by (rule exp_upper_sum [OF _ r]) simp
  also have "\<dots> < 3"
    unfolding exp_sum_19 by (simp add: fact_numeral power_divide)
  finally have "exp (1.0986122886681088::real) < exp (ln (3))" by simp
  then show ?thesis by (simp only: exp_less_cancel_iff)
qed

lemma ln_3_2_upper: "ln (3 / 2::real) < 0.4054651081081654"
proof -
  have "(3 / 2::real) < (\<Sum>m<15. (0.4054651081081654::real) ^ m / fact m)"
    unfolding exp_sum_15 by simp
  also have "\<dots> \<le> exp 0.4054651081081654" by (rule exp_lower_sum) simp
  finally have "exp (ln (3 / 2)) < exp (0.4054651081081654::real)" by simp
  then show ?thesis by (simp only: exp_less_cancel_iff)
qed

lemma ln_3_2_lower: "0.4054651081081634 < ln (3 / 2::real)"
proof -
  have r: "(0.4054651081081634::real) ^ 15 / fact 15 < 1"
    by (simp add: fact_numeral power_divide)
  have "exp (0.4054651081081634::real)
      \<le> (\<Sum>m<15. (0.4054651081081634::real) ^ m / fact m) / (1 - 0.4054651081081634 ^ 15 / fact 15)"
    by (rule exp_upper_sum [OF _ r]) simp
  also have "\<dots> < 3 / 2"
    unfolding exp_sum_15 by (simp add: fact_numeral power_divide)
  finally have "exp (0.4054651081081634::real) < exp (ln (3 / 2))" by simp
  then show ?thesis by (simp only: exp_less_cancel_iff)
qed

lemma ln_3_float: "\<bar>ln (3::real) - 1.0986122886681098\<bar> < 1 / 10 ^ 15"
proof -
  have "ln (3::real) - 1.0986122886681098 < 1 / 10 ^ 15"
    using ln_3_upper by simp
  moreover have "- (1 / 10 ^ 15) < ln (3::real) - 1.0986122886681098"
    using ln_3_lower by simp
  ultimately show ?thesis by (simp only: abs_less_iff) simp
qed

lemma ln_3_2_float: "\<bar>ln (3 / 2 :: real) - 0.4054651081081644\<bar> < 1 / 10 ^ 15"
proof -
  have "ln (3 / 2 :: real) - 0.4054651081081644 < 1 / 10 ^ 15"
    using ln_3_2_upper by simp
  moreover have "- (1 / 10 ^ 15) < ln (3 / 2 :: real) - 0.4054651081081644"
    using ln_3_2_lower by simp
  ultimately show ?thesis by (simp only: abs_less_iff) simp
qed

section \<open>Properties of the searcher\<close>

lemma set_order_remdups: "set_order remdups"
  by (simp add: set_order_def)

lemma example_tokens_zzz:
  "replace_unknown_words example_util (clean_words example_util ''zzz'') (vocab example_data)
     = [''<unk>'']"
  by (simp add: example_util_def example_data_def)

lemma example_hits:
  "bm25_hits remdups example_util example_data [''a'', ''d'']
   = Inr [\<lparr>doc_id = 0, title = [''a''], content = [''b'', ''c'']\<rparr>,
          \<lparr>doc_id = 1, title = [''b''], content = [''c'', ''d'']\<rparr>,
          \<lparr>doc_id = 2, title = [''c''], content = [''d'', ''e'']\<rparr>]"
  by (simp add: bm25_hits_def docs_map_def convert_doc_def example_util_def example_data_def)

lemma set_order_Nil: "set_order iter \<Longrightarrow> iter [] = []"
proof -
  assume "set_order iter"
  then have "set (iter []) = set []" unfolding set_order_def by blast
  then show ?thesis by simp
qed

lemma bm25_search_no_postings:
  assumes "set_order iter"
    and "postings (inverted_index data)
           (replace_unknown_words u (clean_words u query) (vocab data)) = Inr []"
  shows "bm25_search iter u data query topk = Inr []"
  using assms by (simp add: bm25_search_def bm25_hits_def Let_def set_order_Nil)

lemma bm25_search_prefix:
  "0 \<le> k \<Longrightarrow> bm25_search iter u data query (Some k)
     = map_sum id (take (nat k)) (bm25_search iter u data query None)"
  by (simp add: bm25_search_def Let_def slice_to_None slice_to_nonneg split: sum.splits)

lemma qlm_search_prefix:
  "0 \<le> k \<Longrightarrow> qlm_search score u data query (Some k) alpha normalise
     = map_sum id (take (nat k)) (qlm_search score u data query None alpha normalise)"
  by (simp add: qlm_search_def slice_to_None slice_to_nonneg split: sum.splits)

lemma sorted_calculate_bm25:
  "sorted_wrt (\<lambda>x y. snd y \<le> snd x) (calculate_bm25 q hits k1 b)"
  by (simp add: calculate_bm25_def sorted_reverse_sorted)

lemma bm25_search_full:
  assumes "bm25_hits iter u data
      (replace_unknown_words u (clean_words u query) (vocab data)) = Inr hits"
  shows "\<exists>r. bm25_search iter u data query None = Inr r \<and> length r = length hits \<and>
           sorted_wrt (\<lambda>x y. snd y \<le> snd x) r"
  using assms
  by (simp add: bm25_search_def Let_def slice_to_None length_calculate_bm25
      sorted_calculate_bm25)

lemma qlm_search_full:
  assumes "qlm_scores score u data query alpha normalise = Inr scores"
  shows "\<exists>r. qlm_search score u data query None alpha normalise = Inr r \<and>
           length r = length scores \<and> sorted_wrt (\<lambda>x y. snd y \<le> snd x) r"
  using assms
  by (simp add: qlm_search_def slice_to_None length_sorted_reverse sorted_reverse_sorted)

lemma example_bm25_full:
  "bm25_search remdups example_util example_data ''b c e'' None
   = Inr [(2, ln 3), (0, ln (3 / 2)), (1, ln (3 / 2))]"
  by (simp add: bm25_search_def bm25_hits_def docs_map_def convert_doc_def example_util_def
      example_data_def slice_to_def calculate_bm25_def sorted_reverse_def bm25_score_def
      bm25_idf_def bm25_df_def bm25_tf_def bm25_avgdl_def doc_tokens_def)

lemma example_qlm_full:
  "qlm_search calculate_interpolated_sentence_probability example_util example_data ''b''
     None (3 / 4) False
   = Inr [(Some 0, 23 / 108), (Some 1, 23 / 108), (Some 2, 7 / 54)]"
  by (simp add: qlm_search_def example_scores slice_to_def sorted_reverse_def)

lemma qlm_search_negative:
  "k < 0 \<Longrightarrow> qlm_search score u data query (Some k) alpha normalise
     = map_sum id (\<lambda>r. take (length r - nat (- k)) r)
         (qlm_search score u data query None alpha normalise)"
  by (simp add: qlm_search_def slice_to_None slice_to_neg split: sum.splits)

lemma qlm_search_total:
  assumes "\<forall>m\<in>set (language_models data). \<exists>s.
      score m (collection_model data)
        (replace_unknown_words u (clean_words u query) (vocab data)) alpha normalise = Inr s"
  shows "\<exists>r. qlm_search score u data query topk alpha normalise = Inr r"
proof -
  have "\<forall>m\<in>snd ` set (models_map data). \<exists>s.
      score m (collection_model data)
        (replace_unknown_words u (clean_words u query) (vocab data)) alpha normalise = Inr s"
    using assms values_models_map [of data] by blast
  then have "\<exists>r. score_loop (\<lambda>m. score m (collection_model data)
        (replace_unknown_words u (clean_words u query) (vocab data)) alpha normalise)
      (models_map data) [] = Inr r"
    by (rule score_loop_total)
  then show ?thesis
    by (auto simp: qlm_search_def qlm_scores_def Let_def)
qed

lemma bm25_hits_distinct:
  assumes "set_order iter" and "bm25_hits iter u data q = Inr hits"
  shows "distinct (map doc_id hits)"
proof -
  from bm25_hits_ids [OF assms(2)] obtain ids where "map doc_id hits = iter ids" by blast
  with assms(1) show ?thesis by (simp add: set_order_def)
qed

lemma bm25_search_distinct:
  assumes "set_order iter" and "bm25_search iter u data query topk = Inr r"
  shows "distinct (map fst r)"
proof -
  let ?q = "replace_unknown_words u (clean_words u query) (vocab data)"
  from assms(2) obtain hits where h: "bm25_hits iter u data ?q = Inr hits"
    and r: "r = (if hits = [] then [] else slice_to topk (calculate_bm25 ?q hits (12 / 10) (3 / 4)))"
    by (auto simp: bm25_search_def Let_def split: sum.splits if_splits)
  have "distinct (map doc_id hits)" using assms(1) h by (rule bm25_hits_distinct)
  then have "distinct (map fst (calculate_bm25 ?q hits (12 / 10) (3 / 4)))"
    by (simp only: mset_eq_imp_distinct_iff [OF keys_calculate_bm25])
  then have "distinct (map fst (slice_to topk (calculate_bm25 ?q hits (12 / 10) (3 / 4))))"
    by (rule distinct_keys_slice_to)
  with r show ?thesis by simp
qed

lemma qlm_scores_keys:
  assumes "qlm_scores score u data query alpha normalise = Inr scores"
  shows "map fst scores = map fst (models_map data)"
proof -
  have "score_loop (\<lambda>m. score m (collection_model data)
            (replace_unknown_words u (clean_words u query) (vocab data)) alpha normalise)
          (models_map data) [] = Inr scores"
    using assms by (simp add: qlm_scores_def Let_def)
  from score_loop_keys [OF this] show ?thesis by (simp add: distinct_models_map)
qed

lemma qlm_search_distinct:
  assumes "qlm_search score u data query topk alpha normalise = Inr r"
  shows "distinct (map fst r)"
proof -
  from assms obtain scores where s: "qlm_scores score u data query alpha normalise = Inr scores"
    and r: "r = slice_to topk (sorted_reverse snd scores)"
    by (auto simp: qlm_search_def split: sum.splits)
  have "distinct (map fst scores)"
    using qlm_scores_keys [OF s] by (simp add: distinct_models_map)
  then have "distinct (map fst (sorted_reverse snd scores))"
    by (simp add: distinct_keys_sorted_reverse)
  then show ?thesis unfolding r by (rule distinct_keys_slice_to)
qed

lemma qlm_search_all_models:
  assumes "qlm_search score u data query None alpha normalise = Inr r"
  shows "fst ` set r = lm_id ` set (language_models data)"
    and "distinct (map lm_id (language_models data)) \<Longrightarrow> length r = length (language_models data)"
proof -
  from assms obtain scores where s: "qlm_scores score u data query alpha normalise = Inr scores"
    and r: "r = sorted_reverse snd scores"
    by (auto simp: qlm_search_def slice_to_None split: sum.splits)
  have "fst ` set r = set (map fst scores)" by (simp add: r set_sorted_reverse)
  also have "\<dots> = fst ` set (models_map data)" by (simp add: qlm_scores_keys [OF s])
  finally show k: "fst ` set r = lm_id ` set (language_models data)"
    by (simp add: keys_models_map)
  assume d: "distinct (map lm_id (language_models data))"
  have "length r = length (map fst r)" by simp
  also have "\<dots> = card (set (map fst r))"
    using qlm_search_distinct [OF assms] by (simp only: distinct_card)
  also have "\<dots> = card (set (map lm_id (language_models data)))" using k by simp
  also have "\<dots> = length (map lm_id (language_models data))" using d by (simp only: distinct_card)
  finally show "length r = length (language_models data)" by simp
qed

lemma bm25_search_hits:
  assumes "bm25_search iter u data query topk = Inr r"
  shows "\<exists>hits. bm25_hits iter u data
             (replace_unknown_words u (clean_words u query) (vocab data)) = Inr hits \<and>
           r = (if hits = [] then []
                else slice_to topk
                  (calculate_bm25 (replace_unknown_words u (clean_words u query) (vocab data))
                     hits (12 / 10) (3 / 4)))"
  using assms by (auto simp: bm25_search_def Let_def split: sum.splits if_splits)

lemma ids_calculate_bm25: "fst ` set (calculate_bm25 q hits k1 b) = doc_id ` set hits"
proof -
  have "set (map fst (calculate_bm25 q hits k1 b)) = set (map doc_id hits)"
    by (rule mset_eq_setD) (rule keys_calculate_bm25)
  then show ?thesis by simp
qed

lemma set_slice_to: "set (slice_to topk xs) \<subseteq> set xs"
proof -
  obtain n where "slice_to topk xs = take n xs" using slice_to_take by blast
  then show ?thesis by (simp add: set_take_subset)
qed

lemma bm25_hits_postings:
  assumes "set_order iter" and "bm25_hits iter u data query = Inr hits"
  shows "doc_id ` set hits
    = {i. \<exists>w\<in>set query. \<exists>ps. inverted_index data w = Some ps \<and> i \<in> set ps}"
proof -
  from bm25_hits_ids [OF assms(2)] obtain ids where
    p: "postings (inverted_index data) query = Inr ids" and m: "map doc_id hits = iter ids"
    by blast
  have "doc_id ` set hits = set (map doc_id hits)" by simp
  also have "\<dots> = set ids" using assms(1) m by (simp add: set_order_def)
  also have "\<dots> = {i. \<exists>w\<in>set query. \<exists>ps. inverted_index data w = Some ps \<and> i \<in> set ps}"
    by (rule postings_set [OF p])
  finally show ?thesis .
qed


section \<open>The claims\<close>



text \<open>
  Claim C2, as stated, fails: the index of the small collection has no key \<open><unk>\<close>, the
  query \<open>zzz\<close> becomes the token \<open><unk>\<close>, and the lookup \<open>inverted_index[word]\<close>
  raises \<open>KeyError\<close>, which ends \<open>bm25_search\<close>.
\<close>

theorem bm25_search_missing_token_counterexample:
  "inverted_index example_data ''<unk>'' = None \<and>
   postings (inverted_index example_data)
     (replace_unknown_words example_util (clean_words example_util ''zzz'') (vocab example_data))
     = Inl KeyError \<and>
   bm25_search remdups example_util example_data ''zzz'' None = Inl KeyError"
  by (simp add: bm25_search_def bm25_hits_def example_util_def example_data_def)

text \<open>
  Claim C2, amended. A query token that is not a key of the inverted index makes
  \<open>bm25_search\<close> fail with \<open>KeyError\<close>; a token that is a key with an empty postings
  list contributes no document id to the candidates.
\<close>

theorem bm25_search_missing_token:
  "(w \<in> set (replace_unknown_words u (clean_words u query) (vocab data)) \<and>
    inverted_index data w = None \<longrightarrow>
    bm25_search iter u data query topk = Inl KeyError) \<and>
   (inverted_index data w' = Some [] \<longrightarrow>
    postings (inverted_index data) (ws @ w' # ws') = postings (inverted_index data) (ws @ ws'))"
proof (intro conjI impI)
  assume "w \<in> set (replace_unknown_words u (clean_words u query) (vocab data)) \<and>
    inverted_index data w = None"
  then have "postings (inverted_index data)
      (replace_unknown_words u (clean_words u query) (vocab data)) = Inl KeyError"
    by (blast intro: postings_missing)
  then show "bm25_search iter u data query topk = Inl KeyError"
    by (simp add: bm25_search_def bm25_hits_def Let_def)
next
  assume "inverted_index data w' = Some []"
  then show "postings (inverted_index data) (ws @ w' # ws')
    = postings (inverted_index data) (ws @ ws')"
    by (rule postings_skip)
qed

theorem bm25_search_missing_token_witness:
  "(''<unk>'' \<in> set (replace_unknown_words example_util (clean_words example_util ''zzz'')
       (vocab example_data)) \<and>
    inverted_index example_data ''<unk>'' = None) \<and>
   bm25_search remdups example_util example_data ''zzz'' (Some 10) = Inl KeyError \<and>
   inverted_index (example_data\<lparr>inverted_index := (inverted_index example_data)(''<unk>'' \<mapsto> [])\<rparr>)
     ''<unk>'' = Some [] \<and>
   postings (inverted_index
       (example_data\<lparr>inverted_index := (inverted_index example_data)(''<unk>'' \<mapsto> [])\<rparr>))
     ([''b''] @ ''<unk>'' # [''e''])
   = postings (inverted_index
       (example_data\<lparr>inverted_index := (inverted_index example_data)(''<unk>'' \<mapsto> [])\<rparr>))
     ([''b''] @ [''e''])"
proof -
  have a: "''<unk>'' \<in> set (replace_unknown_words example_util (clean_words example_util ''zzz'')
       (vocab example_data)) \<and> inverted_index example_data ''<unk>'' = None"
    by (simp add: example_util_def example_data_def)
  have b: "inverted_index
      (example_data\<lparr>inverted_index := (inverted_index example_data)(''<unk>'' \<mapsto> [])\<rparr>)
      ''<unk>'' = Some []"
    by simp
  from a bm25_search_missing_token [of "''<unk>''" example_util "''zzz''" example_data remdups "Some 10"]
  have c: "bm25_search remdups example_util example_data ''zzz'' (Some 10) = Inl KeyError"
    by blast
  from b bm25_search_missing_token [of _ example_util _
      "example_data\<lparr>inverted_index := (inverted_index example_data)(''<unk>'' \<mapsto> [])\<rparr>"
      _ _ "''<unk>''" "[''b'']" "[''e'']"]
  have d: "postings (inverted_index
       (example_data\<lparr>inverted_index := (inverted_index example_data)(''<unk>'' \<mapsto> [])\<rparr>))
     ([''b''] @ ''<unk>'' # [''e''])
   = postings (inverted_index
       (example_data\<lparr>inverted_index := (inverted_index example_data)(''<unk>'' \<mapsto> [])\<rparr>))
     ([''b''] @ [''e''])"
    by blast
  from a b c d show ?thesis by blast
qed

text \<open>
  Claim C3. When \<open>bm25_search\<close> without \<open>topk\<close> returns, the documents it has scored
  are those of the union of the postings lists: the candidates handed to the ranker, and
  the ids of the returned pairs, are exactly the ids that occur in the postings list of a
  token of the query after the substitution of unknown words; with a \<open>topk\<close> the
  returned ids are among them.
\<close>

theorem bm25_search_union_postings:
  assumes "set_order iter" and "bm25_search iter u data query None = Inr r"
  shows "\<exists>hits.
           bm25_hits iter u data (replace_unknown_words u (clean_words u query) (vocab data))
             = Inr hits \<and>
           doc_id ` set hits
             = {i. \<exists>w\<in>set (replace_unknown_words u (clean_words u query) (vocab data)).
                     \<exists>ps. inverted_index data w = Some ps \<and> i \<in> set ps} \<and>
           fst ` set r
             = {i. \<exists>w\<in>set (replace_unknown_words u (clean_words u query) (vocab data)).
                     \<exists>ps. inverted_index data w = Some ps \<and> i \<in> set ps} \<and>
           (\<forall>topk r'. bm25_search iter u data query topk = Inr r' \<longrightarrow>
              fst ` set r' \<subseteq> fst ` set r)"
proof -
  let ?q = "replace_unknown_words u (clean_words u query) (vocab data)"
  let ?U = "{i. \<exists>w\<in>set ?q. \<exists>ps. inverted_index data w = Some ps \<and> i \<in> set ps}"
  from bm25_search_hits [OF assms(2)] obtain hits where
    h: "bm25_hits iter u data ?q = Inr hits" and
    r: "r = (if hits = [] then [] else slice_to None (calculate_bm25 ?q hits (12 / 10) (3 / 4)))"
    by blast
  have ids: "doc_id ` set hits = ?U" using assms(1) h by (rule bm25_hits_postings)
  have res: "fst ` set r = doc_id ` set hits"
    using r by (simp add: slice_to_None ids_calculate_bm25)
  have sub: "fst ` set r' \<subseteq> fst ` set r"
    if "bm25_search iter u data query topk = Inr r'" for topk r'
  proof -
    from bm25_search_hits [OF that] h
    have r': "r' = (if hits = [] then []
        else slice_to topk (calculate_bm25 ?q hits (12 / 10) (3 / 4)))"
      by simp
    show ?thesis
    proof (cases "hits = []")
      case True
      with r' show ?thesis by simp
    next
      case False
      with r' have "set r' \<subseteq> set (calculate_bm25 ?q hits (12 / 10) (3 / 4))"
        by (simp add: set_slice_to)
      then have "fst ` set r' \<subseteq> fst ` set (calculate_bm25 ?q hits (12 / 10) (3 / 4))"
        by (rule image_mono)
      then show ?thesis by (simp add: res ids_calculate_bm25)
    qed
  qed
  from h ids res sub show ?thesis by (auto simp del: subset_image_iff)
qed

theorem bm25_search_union_postings_witness:
  "set_order remdups \<and>
   bm25_search remdups example_util example_data ''b c e'' None
     = Inr [(2, ln 3), (0, ln (3 / 2)), (1, ln (3 / 2))] \<and>
   (\<exists>hits.
      bm25_hits remdups example_util example_data
        (replace_unknown_words example_util (clean_words example_util ''b c e'')
           (vocab example_data)) = Inr hits \<and>
      doc_id ` set hits
        = {i. \<exists>w\<in>set (replace_unknown_words example_util (clean_words example_util ''b c e'')
                 (vocab example_data)).
                \<exists>ps. inverted_index example_data w = Some ps \<and> i \<in> set ps} \<and>
      fst ` set [(2::int, ln 3 :: real), (0, ln (3 / 2)), (1, ln (3 / 2))]
        = {i. \<exists>w\<in>set (replace_unknown_words example_util (clean_words example_util ''b c e'')
                 (vocab example_data)).
                \<exists>ps. inverted_index example_data w = Some ps \<and> i \<in> set ps} \<and>
      (\<forall>topk r'. bm25_search remdups example_util example_data ''b c e'' topk = Inr r' \<longrightarrow>
         fst ` set r' \<subseteq> fst ` set [(2::int, ln 3 :: real), (0, ln (3 / 2)), (1, ln (3 / 2))]))"
proof (intro conjI)
  show "set_order remdups" by (rule set_order_remdups)
  show "bm25_search remdups example_util example_data ''b c e'' None
     = Inr [(2, ln 3), (0, ln (3 / 2)), (1, ln (3 / 2))]"
    by (rule example_bm25_full)
  show "\<exists>hits.
      bm25_hits remdups example_util example_data
        (replace_unknown_words example_util (clean_words example_util ''b c e'')
           (vocab example_data)) = Inr hits \<and>
      doc_id ` set hits
        = {i. \<exists>w\<in>set (replace_unknown_words example_util (clean_words example_util ''b c e'')
                 (vocab example_data)).
                \<exists>ps. inverted_index example_data w = Some ps \<and> i \<in> set ps} \<and>
      fst ` set [(2::int, ln 3 :: real), (0, ln (3 / 2)), (1, ln (3 / 2))]
        = {i. \<exists>w\<in>set (replace_unknown_words example_util (clean_words example_util ''b c e'')
                 (vocab example_data)).
                \<exists>ps. inverted_index example_data w = Some ps \<and> i \<in> set ps} \<and>
      (\<forall>topk r'. bm25_search remdups example_util example_data ''b c e'' topk = Inr r' \<longrightarrow>
         fst ` set r' \<subseteq> fst ` set [(2::int, ln 3 :: real), (0, ln (3 / 2)), (1, ln (3 / 2))])"
    by (rule bm25_search_union_postings [OF set_order_remdups example_bm25_full])
qed

text \<open>
  Claim C4, as stated, fails: on the small collection neither token of the query
  \<open>zzz yyy\<close> retrieves a document, and \<open>bm25_search\<close> raises \<open>KeyError\<close> instead of
  returning the empty list.
\<close>

theorem bm25_search_no_candidates_counterexample:
  "replace_unknown_words example_util (clean_words example_util ''zzz yyy'')
     (vocab example_data) = [''<unk>'', ''<unk>''] \<and>
   inverted_index example_data ''<unk>'' = None \<and>
   bm25_search remdups example_util example_data ''zzz yyy'' (Some 10) = Inl KeyError"
  by (simp add: bm25_search_def bm25_hits_def example_util_def example_data_def)

text \<open>
  Claim C4, amended. When the tokenised query is empty, or every token of it is a key of
  the inverted index with an empty postings list, \<open>bm25_search\<close> returns the empty list
  and raises no error; when a token of it is not a key of the index, \<open>bm25_search\<close>
  raises \<open>KeyError\<close>.
\<close>

theorem bm25_search_empty:
  assumes "set_order iter"
  shows "(replace_unknown_words u (clean_words u query) (vocab data) = [] \<longrightarrow>
          bm25_search iter u data query topk = Inr []) \<and>
         ((\<forall>w\<in>set (replace_unknown_words u (clean_words u query) (vocab data)).
             inverted_index data w = Some []) \<longrightarrow>
          bm25_search iter u data query topk = Inr []) \<and>
         ((\<exists>w\<in>set (replace_unknown_words u (clean_words u query) (vocab data)).
             inverted_index data w = None) \<longrightarrow>
          bm25_search iter u data query topk = Inl KeyError)"
proof (intro conjI impI)
  assume "replace_unknown_words u (clean_words u query) (vocab data) = []"
  then have "postings (inverted_index data)
      (replace_unknown_words u (clean_words u query) (vocab data)) = Inr []"
    by simp
  with assms show "bm25_search iter u data query topk = Inr []"
    by (rule bm25_search_no_postings)
next
  assume "\<forall>w\<in>set (replace_unknown_words u (clean_words u query) (vocab data)).
             inverted_index data w = Some []"
  then have "postings (inverted_index data)
      (replace_unknown_words u (clean_words u query) (vocab data)) = Inr []"
    by (rule postings_empty)
  with assms show "bm25_search iter u data query topk = Inr []"
    by (rule bm25_search_no_postings)
next
  assume "\<exists>w\<in>set (replace_unknown_words u (clean_words u query) (vocab data)).
             inverted_index data w = None"
  then have "postings (inverted_index data)
      (replace_unknown_words u (clean_words u query) (vocab data)) = Inl KeyError"
    by (blast intro: postings_missing)
  then show "bm25_search iter u data query topk = Inl KeyError"
    by (simp add: bm25_search_def bm25_hits_def Let_def)
qed

theorem bm25_search_empty_witness:
  "set_order remdups \<and>
   replace_unknown_words example_util (clean_words example_util '''') (vocab example_data) = [] \<and>
   bm25_search remdups example_util example_data '''' None = Inr [] \<and>
   replace_unknown_words example_util (clean_words example_util ''zzz'') (vocab example_data)
     = [''<unk>''] \<and>
   inverted_index
     (example_data\<lparr>inverted_index := (inverted_index example_data)(''<unk>'' \<mapsto> [])\<rparr>)
     ''<unk>'' = Some [] \<and>
   bm25_search remdups example_util
     (example_data\<lparr>inverted_index := (inverted_index example_data)(''<unk>'' \<mapsto> [])\<rparr>)
     ''zzz'' None = Inr [] \<and>
   inverted_index example_data ''<unk>'' = None \<and>
   bm25_search remdups example_util example_data ''zzz'' None = Inl KeyError"
proof -
  let ?data = "example_data\<lparr>inverted_index := (inverted_index example_data)(''<unk>'' \<mapsto> [])\<rparr>"
  have a: "replace_unknown_words example_util (clean_words example_util '''')
      (vocab example_data) = []"
    by (simp add: example_util_def)
  have t: "replace_unknown_words example_util (clean_words example_util ''zzz'')
      (vocab example_data) = [''<unk>'']"
    by (rule example_tokens_zzz)
  have i: "inverted_index ?data ''<unk>'' = Some []"
    by simp
  have n: "inverted_index example_data ''<unk>'' = None"
    by (simp add: example_data_def)
  from t i have b: "\<forall>w\<in>set (replace_unknown_words example_util (clean_words example_util ''zzz'')
        (vocab ?data)). inverted_index ?data w = Some []"
    by simp
  from t n have e: "\<exists>w\<in>set (replace_unknown_words example_util (clean_words example_util ''zzz'')
        (vocab example_data)). inverted_index example_data w = None"
    by simp
  from a bm25_search_empty [OF set_order_remdups, of example_util "''''" example_data None]
  have c: "bm25_search remdups example_util example_data '''' None = Inr []"
    by blast
  from b bm25_search_empty [OF set_order_remdups, of example_util "''zzz''" ?data None]
  have d: "bm25_search remdups example_util ?data ''zzz'' None = Inr []"
    by blast
  from e bm25_search_empty [OF set_order_remdups, of example_util "''zzz''" example_data None]
  have f: "bm25_search remdups example_util example_data ''zzz'' None = Inl KeyError"
    by blast
  from set_order_remdups a t i n c d f show ?thesis by blast
qed

text \<open>
  Claim C5. For \<open>topk \<ge> 0\<close>, \<open>bm25_search\<close> and \<open>qlm_search\<close> return the first
  \<open>topk\<close> entries of what they return without \<open>topk\<close> (and fail when that call fails),
  hence at most \<open>topk\<close> pairs; without \<open>topk\<close> they return one pair per candidate
  document, respectively per score, best score first.
\<close>

theorem search_topk_prefix:
  assumes "0 \<le> k"
  shows "bm25_search iter u data query (Some k)
           = map_sum id (take (nat k)) (bm25_search iter u data query None) \<and>
         qlm_search score u data query (Some k) alpha normalise
           = map_sum id (take (nat k)) (qlm_search score u data query None alpha normalise) \<and>
         (\<forall>r. bm25_search iter u data query (Some k) = Inr r \<longrightarrow> int (length r) \<le> k) \<and>
         (\<forall>r. qlm_search score u data query (Some k) alpha normalise = Inr r \<longrightarrow>
              int (length r) \<le> k) \<and>
         (\<forall>hits. bm25_hits iter u data
              (replace_unknown_words u (clean_words u query) (vocab data)) = Inr hits \<longrightarrow>
            (\<exists>r. bm25_search iter u data query None = Inr r \<and> length r = length hits \<and>
                 sorted_wrt (\<lambda>x y. snd y \<le> snd x) r)) \<and>
         (\<forall>scores. qlm_scores score u data query alpha normalise = Inr scores \<longrightarrow>
            (\<exists>r. qlm_search score u data query None alpha normalise = Inr r \<and>
                 length r = length scores \<and> sorted_wrt (\<lambda>x y. snd y \<le> snd x) r))"
proof (intro conjI allI impI)
  show b: "bm25_search iter u data query (Some k)
           = map_sum id (take (nat k)) (bm25_search iter u data query None)"
    using assms by (rule bm25_search_prefix)
  show q: "qlm_search score u data query (Some k) alpha normalise
           = map_sum id (take (nat k)) (qlm_search score u data query None alpha normalise)"
    using assms by (rule qlm_search_prefix)
  show "int (length r) \<le> k" if "bm25_search iter u data query (Some k) = Inr r" for r
    using that assms unfolding b
    by (cases "bm25_search iter u data query None") auto
  show "int (length r) \<le> k"
    if "qlm_search score u data query (Some k) alpha normalise = Inr r" for r
    using that assms unfolding q
    by (cases "qlm_search score u data query None alpha normalise") auto
  show "\<exists>r. bm25_search iter u data query None = Inr r \<and> length r = length hits \<and>
                 sorted_wrt (\<lambda>x y. snd y \<le> snd x) r"
    if "bm25_hits iter u data
              (replace_unknown_words u (clean_words u query) (vocab data)) = Inr hits" for hits
    using that by (rule bm25_search_full)
  show "\<exists>r. qlm_search score u data query None alpha normalise = Inr r \<and>
                 length r = length scores \<and> sorted_wrt (\<lambda>x y. snd y \<le> snd x) r"
    if "qlm_scores score u data query alpha normalise = Inr scores" for scores
    using that by (rule qlm_search_full)
qed

theorem search_topk_prefix_witness:
  "(0::int) \<le> 2 \<and>
   bm25_search remdups example_util example_data ''b c e'' (Some 2)
     = Inr [(2, ln 3), (0, ln (3 / 2))] \<and>
   int (length [(2::int, ln 3 :: real), (0, ln (3 / 2))]) \<le> 2 \<and>
   qlm_search calculate_interpolated_sentence_probability example_util example_data ''b''
     (Some 2) (3 / 4) False
     = Inr [(Some 0, 23 / 108), (Some 1, 23 / 108)] \<and>
   int (length [(Some (0::int), 23 / 108 :: real), (Some 1, 23 / 108)]) \<le> 2"
proof -
  have k: "(0::int) \<le> 2" by simp
  note t = search_topk_prefix [OF k, of remdups example_util example_data _
      calculate_interpolated_sentence_probability]
  from t [of "''b c e''"]
  have b: "bm25_search remdups example_util example_data ''b c e'' (Some 2)
     = Inr [(2, ln 3), (0, ln (3 / 2))]"
    by (simp add: example_bm25_full)
  from t [of "''b''" "3 / 4" False]
  have q: "qlm_search calculate_interpolated_sentence_probability example_util example_data
     ''b'' (Some 2) (3 / 4) False = Inr [(Some 0, 23 / 108), (Some 1, 23 / 108)]"
    by (simp add: example_qlm_full)
  from b q show ?thesis by simp
qed

text \<open>
  Claim C6, as stated, fails: with \<open>topk = -1\<close> \<open>qlm_search\<close> returns the ranking of
  the three models without its last entry, and with no language model loaded it returns
  the empty list for \<open>alpha = 2\<close>.
\<close>

theorem qlm_search_negative_topk_counterexample:
  "qlm_search calculate_interpolated_sentence_probability example_util example_data ''b''
     (Some (- 1)) (3 / 4) False
     = Inr [(Some 0, 23 / 108), (Some 1, 23 / 108)] \<and>
   qlm_search calculate_interpolated_sentence_probability example_util
     (example_data\<lparr>language_models := []\<rparr>) ''b'' (Some (- 1)) 2 False = Inr []"
proof
  show "qlm_search calculate_interpolated_sentence_probability example_util example_data ''b''
     (Some (- 1)) (3 / 4) False
     = Inr [(Some 0, 23 / 108), (Some 1, 23 / 108)]"
    by (simp add: qlm_search_def example_scores slice_to_def sorted_reverse_def)
  show "qlm_search calculate_interpolated_sentence_probability example_util
     (example_data\<lparr>language_models := []\<rparr>) ''b'' (Some (- 1)) 2 False = Inr []"
    by (simp add: qlm_search_def qlm_scores_def models_map_def dict_of_def slice_to_def
        sorted_reverse_def)
qed

text \<open>
  Claim C6, amended. \<open>qlm_search\<close> checks neither \<open>topk\<close> nor \<open>alpha\<close>: a negative
  \<open>topk\<close> gives the ranking without its last \<open>-topk\<close> entries, and whenever the scoring
  function returns a score for every loaded model, \<open>qlm_search\<close> returns a result, for
  every \<open>topk\<close> and every \<open>alpha\<close>.
\<close>

theorem qlm_search_unvalidated:
  "(k < 0 \<longrightarrow>
      qlm_search score u data query (Some k) alpha normalise
        = map_sum id (\<lambda>r. take (length r - nat (- k)) r)
            (qlm_search score u data query None alpha normalise)) \<and>
   ((\<forall>m\<in>set (language_models data). \<exists>s.
        score m (collection_model data)
          (replace_unknown_words u (clean_words u query) (vocab data)) alpha normalise = Inr s)
    \<longrightarrow> (\<exists>r. qlm_search score u data query topk alpha normalise = Inr r))"
  using qlm_search_negative [of k score u data query alpha normalise]
    qlm_search_total [of data score u query alpha normalise topk]
  by blast

theorem qlm_search_unvalidated_witness:
  "(- 1 :: int) < 0 \<and>
   qlm_search calculate_interpolated_sentence_probability example_util example_data ''b''
     (Some (- 1)) (3 / 4) False
     = map_sum id (\<lambda>r. take (length r - nat (- (- 1))) r)
         (qlm_search calculate_interpolated_sentence_probability example_util example_data
            ''b'' None (3 / 4) False) \<and>
   map (\<lambda>m. calculate_interpolated_sentence_probability m (collection_model example_data)
          (replace_unknown_words example_util (clean_words example_util ''b'')
             (vocab example_data)) (3 / 4) False)
     (language_models example_data)
     = [Inr (23 / 108), Inr (23 / 108), Inr (7 / 54)] \<and>
   (\<exists>r. qlm_search calculate_interpolated_sentence_probability example_util example_data
      ''b'' (Some (- 1)) (3 / 4) False = Inr r)"
proof -
  have a: "(- 1 :: int) < 0" by simp
  have m: "map (\<lambda>m. calculate_interpolated_sentence_probability m (collection_model example_data)
          (replace_unknown_words example_util (clean_words example_util ''b'')
             (vocab example_data)) (3 / 4) False)
     (language_models example_data)
     = [Inr (23 / 108), Inr (23 / 108), Inr (7 / 54)]"
    by (simp add: example_data_def example_models_def example_collection_def example_util_def
        interpolated_word_probability_def Let_def)
  have b: "\<forall>m\<in>set (language_models example_data). \<exists>s.
      calculate_interpolated_sentence_probability m (collection_model example_data)
        (replace_unknown_words example_util (clean_words example_util ''b'')
           (vocab example_data)) (3 / 4) False = Inr s"
    by (simp add: interpolated_product)
  from a b qlm_search_unvalidated [of "- 1" calculate_interpolated_sentence_probability
      example_util example_data "''b''" "3 / 4" False "Some (- 1)"]
  have "qlm_search calculate_interpolated_sentence_probability example_util example_data ''b''
     (Some (- 1)) (3 / 4) False
     = map_sum id (\<lambda>r. take (length r - nat (- (- 1))) r)
         (qlm_search calculate_interpolated_sentence_probability example_util example_data
            ''b'' None (3 / 4) False) \<and>
   (\<exists>r. qlm_search calculate_interpolated_sentence_probability example_util example_data
      ''b'' (Some (- 1)) (3 / 4) False = Inr r)"
    by blast
  with a m show ?thesis by blast
qed

text \<open>
  Claim C7. With \<open>alpha = 1\<close> the interpolated sentence probability is the probability of
  the token sequence under the document model alone, and with \<open>alpha = 0\<close> it is the
  probability under the collection model alone, in the product form and in the log form,
  a domain error included.
\<close>

theorem interpolation_degenerate:
  "calculate_interpolated_sentence_probability dm cm ts 1 normalise
     = calculate_sentence_probability dm ts normalise \<and>
   calculate_interpolated_sentence_probability dm cm ts 0 normalise
     = calculate_sentence_probability cm ts normalise"
proof
  show "calculate_interpolated_sentence_probability dm cm ts 1 normalise
     = calculate_sentence_probability dm ts normalise"
    by (induction ts)
      (auto simp: calculate_word_probability_def interpolated_word_probability_def Let_def
        split: sum.splits)
  show "calculate_interpolated_sentence_probability dm cm ts 0 normalise
     = calculate_sentence_probability cm ts normalise"
    by (induction ts)
      (auto simp: calculate_word_probability_def interpolated_word_probability_def Let_def
        split: sum.splits)
qed




text \<open>
  Claim C9. On the fixture of \<open>test_calculate_bm25\<close> (query \<open>b c e\<close>, three documents,
  \<open>k1 = 1.2\<close>, \<open>b = 0.75\<close>) the ranking is document 2 with score \<open>ln 3\<close>, then
  documents 0 and 1, in this order, with score \<open>ln (3 / 2)\<close> each. The floats
  \<open>1.0986122886681098\<close> and \<open>0.4054651081081644\<close> of the test are within
  \<open>10 ^ -15\<close> of these two reals.
\<close>

theorem calculate_bm25_fixture:
  "calculate_bm25 [''b'', ''c'', ''e'']
     [\<lparr>doc_id = 0, title = [''a''], content = [''b'', ''c'']\<rparr>,
      \<lparr>doc_id = 1, title = [''b''], content = [''c'', ''d'']\<rparr>,
      \<lparr>doc_id = 2, title = [''c''], content = [''d'', ''e'']\<rparr>] (12 / 10) (3 / 4)
   = [(2, ln 3), (0, ln (3 / 2)), (1, ln (3 / 2))] \<and>
   \<bar>ln (3::real) - 1.0986122886681098\<bar> < 1 / 10 ^ 15 \<and>
   \<bar>ln (3 / 2 :: real) - 0.4054651081081644\<bar> < 1 / 10 ^ 15"
proof (intro conjI)
  show "calculate_bm25 [''b'', ''c'', ''e'']
     [\<lparr>doc_id = 0, title = [''a''], content = [''b'', ''c'']\<rparr>,
      \<lparr>doc_id = 1, title = [''b''], content = [''c'', ''d'']\<rparr>,
      \<lparr>doc_id = 2, title = [''c''], content = [''d'', ''e'']\<rparr>] (12 / 10) (3 / 4)
   = [(2, ln 3), (0, ln (3 / 2)), (1, ln (3 / 2))]"
    by (simp add: calculate_bm25_def sorted_reverse_def bm25_score_def bm25_idf_def
        bm25_df_def bm25_tf_def bm25_avgdl_def doc_tokens_def)
  show "\<bar>ln (3::real) - 1.0986122886681098\<bar> < 1 / 10 ^ 15"
    by (rule ln_3_float)
  show "\<bar>ln (3 / 2 :: real) - 0.4054651081081644\<bar> < 1 / 10 ^ 15"
    by (rule ln_3_2_float)
qed

text \<open>
  Claim C10. No document id occurs twice in the result of \<open>bm25_search\<close> or of
  \<open>qlm_search\<close>: the candidates of \<open>bm25_search\<close> have pairwise different ids, and
  \<open>qlm_search\<close> without \<open>topk\<close> returns exactly the ids of the loaded language models,
  one pair for each model when the models have pairwise different ids.
\<close>

theorem search_ids_distinct:
  "(set_order iter \<and> bm25_hits iter u data q = Inr hits \<longrightarrow> distinct (map doc_id hits)) \<and>
   (set_order iter \<and> bm25_search iter u data query topk = Inr r \<longrightarrow> distinct (map fst r)) \<and>
   (qlm_search score u data query topk alpha normalise = Inr r' \<longrightarrow> distinct (map fst r')) \<and>
   (qlm_search score u data query None alpha normalise = Inr r'' \<longrightarrow>
      fst ` set r'' = lm_id ` set (language_models data) \<and>
      (distinct (map lm_id (language_models data)) \<longrightarrow>
         length r'' = length (language_models data)))"
  using bm25_hits_distinct [of iter u data q hits]
    bm25_search_distinct [of iter u data query topk r]
    qlm_search_distinct [of score u data query topk alpha normalise r']
    qlm_search_all_models [of score u data query alpha normalise r'']
  by blast

theorem search_ids_distinct_witness:
  "set_order remdups \<and>
   distinct (map doc_id [\<lparr>doc_id = 0, title = [''a''], content = [''b'', ''c'']\<rparr>,
          \<lparr>doc_id = 1, title = [''b''], content = [''c'', ''d'']\<rparr>,
          \<lparr>doc_id = 2, title = [''c''], content = [''d'', ''e'']\<rparr>]) \<and>
   distinct (map fst [(2::int, ln 3 :: real), (0, ln (3 / 2)), (1, ln (3 / 2))]) \<and>
   distinct (map fst [(Some (0::int), 23 / 108 :: real), (Some 1, 23 / 108), (Some 2, 7 / 54)]) \<and>
   fst ` set [(Some (0::int), 23 / 108 :: real), (Some 1, 23 / 108), (Some 2, 7 / 54)]
     = lm_id ` set (language_models example_data) \<and>
   distinct (map lm_id (language_models example_data)) \<and>
   length [(Some (0::int), 23 / 108 :: real), (Some 1, 23 / 108), (Some 2, 7 / 54)]
     = length (language_models example_data)"
proof -
  have d: "distinct (map lm_id (language_models example_data))"
    by (simp add: example_data_def example_models_def)
  from set_order_remdups example_hits example_bm25_full
    search_ids_distinct [where iter = remdups and u = example_util and data = example_data
      and q = "[''a'', ''d'']" and query = "''b c e''" and topk = None]
  have b: "distinct (map doc_id [\<lparr>doc_id = 0, title = [''a''], content = [''b'', ''c'']\<rparr>,
          \<lparr>doc_id = 1, title = [''b''], content = [''c'', ''d'']\<rparr>,
          \<lparr>doc_id = 2, title = [''c''], content = [''d'', ''e'']\<rparr>]) \<and>
   distinct (map fst [(2::int, ln 3 :: real), (0, ln (3 / 2)), (1, ln (3 / 2))])"
    by blast
  from example_qlm_full d
    search_ids_distinct [where u = example_util and data = example_data
      and score = calculate_interpolated_sentence_probability and query = "''b''"
      and topk = None and alpha = "3 / 4" and normalise = False]
  have q: "distinct (map fst [(Some (0::int), 23 / 108 :: real), (Some 1, 23 / 108), (Some 2, 7 / 54)]) \<and>
   fst ` set [(Some (0::int), 23 / 108 :: real), (Some 1, 23 / 108), (Some 2, 7 / 54)]
     = lm_id ` set (language_models example_data) \<and>
   length [(Some (0::int), 23 / 108 :: real), (Some 1, 23 / 108), (Some 2, 7 / 54)]
     = length (language_models example_data)"
    by blast
  from set_order_remdups b q d show ?thesis by blast
qed

end
